theory Spec2Isabelle
  imports Main "HOL-Library.Product_Lexorder"
begin

section \<open>The data-access layer of the direct-messaging service\<close>

text \<open>
  This theory embeds \<^verbatim>\<open>src/app/models/cassandra_models.py\<close>: the classes
  \<^verbatim>\<open>MessageModel\<close> and \<^verbatim>\<open>ConversationModel\<close>. Every method is a function
  from the storage session to a result and the session afterwards. A Python exception that
  leaves a method is the left injection of the result; a value returned is the right one.
\<close>

subsection \<open>Values\<close>

text \<open>
  User identifiers are Python integers. A \<^verbatim>\<open>uuid.UUID\<close> is the number it
  denotes. A time UUID is ordered by the store first by its time field and then by its
  remaining bits (clock sequence and node), so it is a pair under the lexicographic order.
  A \<^verbatim>\<open>datetime\<close> is the count of time-UUID ticks that
  \<^verbatim>\<open>uuid_from_time\<close> computes from it.
\<close>

type_synonym user = int
type_synonym uuid = nat
type_synonym timeuuid = "nat \<times> nat"
type_synonym datetime = nat

text \<open>
  The exceptions: the \<^verbatim>\<open>ValueError\<close> of a conversation with oneself, an exception
  raised by \<^verbatim>\<open>session.execute\<close>, and an exception raised by
  \<^verbatim>\<open>cassandra_client.get_session()\<close>.
\<close>

datatype error = ValueError | StorageError | SessionError

text \<open>
  \<^verbatim>\<open>cassandra.util.uuid_from_time(time_arg)\<close>: the library computes the count of
  ticks of the argument and keeps its low 60 bits as the time field; the remaining bits
  are drawn at random by the library, the draw is the second argument here. The
  floating-point arithmetic by which the library arrives at the count is not modelled: a
  \<^verbatim>\<open>datetime\<close> is the count it arrives at.
\<close>

definition uuid_from_time :: "datetime \<Rightarrow> nat \<Rightarrow> timeuuid" where
  "uuid_from_time time_arg random_bits = (time_arg mod 2 ^ 60, random_bits)"

text \<open>\<^verbatim>\<open>uuid.UUID(bytes=t.bytes).time\<close>: the time field of a time UUID.\<close>

definition uuid_time :: "timeuuid \<Rightarrow> nat" where
  "uuid_time t = fst t"

subsection \<open>Tables\<close>

text \<open>A row of \<^verbatim>\<open>messages_by_conversation\<close>.\<close>

record message_row =
  conversation_id :: uuid
  message_time :: timeuuid
  message_id :: uuid
  sender_id :: user
  receiver_id :: user
  content :: string

text \<open>
  A row of \<^verbatim>\<open>conversations_by_user\<close>, columns in the order of the INSERT of
  \<^verbatim>\<open>create_message\<close>. The column \<^verbatim>\<open>conversation_id\<close> is the field
  \<open>index_conversation_id\<close>.
\<close>

record index_row =
  user_id :: user
  last_message_time :: timeuuid
  index_conversation_id :: uuid
  other_user_id :: user
  last_message_sender_id :: user
  last_message_content :: string

text \<open>The statements the module hands to \<^verbatim>\<open>session.execute\<close>, with their parameters.\<close>

datatype statement =
    SelectConversationId user user
  | InsertConversation user user uuid
  | InsertMessage uuid timeuuid uuid user user string
  | InsertIndex user timeuuid uuid user user string
  | SelectMessages uuid
  | SelectMessagesBefore uuid timeuuid
  | SelectConversations user

text \<open>
  The session that \<^verbatim>\<open>cassandra_client.get_session()\<close> returns; the driver
  behind it is not part of the source file. The definitions of the subsections
  \<open>MessageModel\<close> and \<open>ConversationModel\<close> are the methods from the statement
  after their call of \<^verbatim>\<open>get_session\<close> on, with the session as argument; the
  methods with that call are in the subsection after them. The session holds the three
  tables, the outcome of the coming calls of
  \<^verbatim>\<open>execute\<close> (\<open>True\<close>: the call raises; an empty list: no call raises any
  more), and the statements handed to \<^verbatim>\<open>execute\<close> so far, oldest first.
\<close>

record session =
  conversation_by_users :: "((user \<times> user) \<times> uuid) list"
  messages_by_conversation :: "message_row list"
  conversations_by_user :: "index_row list"
  faults :: "bool list"
  executed :: "statement list"

definition empty_session :: session where
  "empty_session = \<lparr>conversation_by_users = [], messages_by_conversation = [],
     conversations_by_user = [], faults = [], executed = []\<rparr>"

subsection \<open>The storage collaborator\<close>

text \<open>
  One call of \<^verbatim>\<open>session.execute\<close>: the statement is recorded, the next outcome is
  consumed, and the result says whether the call raised. A call that raises leaves the
  tables as they are.
\<close>

definition submit :: "statement \<Rightarrow> session \<Rightarrow> bool \<times> session" where
  "submit st s =
     (case faults s of
        [] \<Rightarrow> (False, s\<lparr>executed := executed s @ [st]\<rparr>)
      | f # fs \<Rightarrow> (f, s\<lparr>faults := fs, executed := executed s @ [st]\<rparr>))"

text \<open>
  Modelled from the spec: the declaration of table \<^verbatim>\<open>conversation_by_users\<close> is
  not in the source file. Section 6 of the specification gives its key,
  \<^verbatim>\<open>(user_a_id, user_b_id)\<close>; an INSERT replaces the row that has the same key.
\<close>

definition upsert_conversation ::
  "user \<Rightarrow> user \<Rightarrow> uuid \<Rightarrow> ((user \<times> user) \<times> uuid) list \<Rightarrow> ((user \<times> user) \<times> uuid) list" where
  "upsert_conversation a b c rows = ((a, b), c) # filter (\<lambda>r. fst r \<noteq> (a, b)) rows"

text \<open>
  Modelled from the spec: the declaration of table \<^verbatim>\<open>messages_by_conversation\<close>
  is not in the source file. Sections 4.2 and 6 of the specification give its key: the
  partition \<^verbatim>\<open>conversation_id\<close> and the clustering column
  \<^verbatim>\<open>message_time\<close>.
\<close>

definition message_key :: "message_row \<Rightarrow> uuid \<times> timeuuid" where
  "message_key r = (conversation_id r, message_time r)"

text \<open>
  Modelled from the spec: an INSERT into \<^verbatim>\<open>messages_by_conversation\<close> replaces
  the row that has the same key.
\<close>

definition upsert_message :: "message_row \<Rightarrow> message_row list \<Rightarrow> message_row list" where
  "upsert_message r rows = r # filter (\<lambda>x. message_key x \<noteq> message_key r) rows"

text \<open>
  Modelled from the spec: the declaration of table \<^verbatim>\<open>conversations_by_user\<close> is
  not in the source file. Sections 3 and 6 of the specification give its key: the partition
  \<^verbatim>\<open>user_id\<close> with one row for each \<^verbatim>\<open>conversation_id\<close>.
\<close>

definition index_key :: "index_row \<Rightarrow> user \<times> uuid" where
  "index_key r = (user_id r, index_conversation_id r)"

text \<open>
  Modelled from the spec: an INSERT into \<^verbatim>\<open>conversations_by_user\<close> is an upsert
  keyed on \<^verbatim>\<open>user_id\<close> and \<^verbatim>\<open>conversation_id\<close>; it replaces the row
  that has the same key.
\<close>

definition upsert_index :: "index_row \<Rightarrow> index_row list \<Rightarrow> index_row list" where
  "upsert_index r rows = r # filter (\<lambda>x. index_key x \<noteq> index_key r) rows"

text \<open>
  A page of a result set. \<open>fetch_size\<close> is the page size given to the statement, a
  value of zero or less turns paging off; the paging state is opaque to the module and is
  the number of rows already delivered. The next paging state is \<open>None\<close> when no row
  is left.
\<close>

definition fetch_page :: "int \<Rightarrow> nat option \<Rightarrow> 'a list \<Rightarrow> 'a list \<times> nat option" where
  "fetch_page fetch_size paging_state rows =
     (let start = (case paging_state of None \<Rightarrow> 0 | Some k \<Rightarrow> k);
          rest = drop start rows
      in if fetch_size \<le> 0 \<or> length rest \<le> nat fetch_size then (rest, None)
         else (take (nat fetch_size) rest, Some (start + nat fetch_size)))"

text \<open>
  \<^verbatim>\<open>SELECT conversation_id FROM conversation_by_users WHERE user_a_id = %s AND
  user_b_id = %s LIMIT 1\<close> followed by \<^verbatim>\<open>result.one()\<close>.
\<close>

definition select_conversation_id ::
  "user \<Rightarrow> user \<Rightarrow> session \<Rightarrow> (error + uuid option) \<times> session" where
  "select_conversation_id a b s =
     (let (raised, s') = submit (SelectConversationId a b) s
      in if raised then (Inl StorageError, s')
         else (Inr (map_of (conversation_by_users s') (a, b)), s'))"

text \<open>\<^verbatim>\<open>INSERT INTO conversation_by_users (user_a_id, user_b_id, conversation_id)\<close>.\<close>

definition insert_conversation ::
  "user \<Rightarrow> user \<Rightarrow> uuid \<Rightarrow> session \<Rightarrow> (error + unit) \<times> session" where
  "insert_conversation a b c s =
     (let (raised, s') = submit (InsertConversation a b c) s
      in if raised then (Inl StorageError, s')
         else (Inr (), s'\<lparr>conversation_by_users :=
                 upsert_conversation a b c (conversation_by_users s')\<rparr>))"

text \<open>\<^verbatim>\<open>INSERT INTO messages_by_conversation (conversation_id, message_time,
  message_id, sender_id, receiver_id, content)\<close>.\<close>

definition insert_message ::
  "uuid \<Rightarrow> timeuuid \<Rightarrow> uuid \<Rightarrow> user \<Rightarrow> user \<Rightarrow> string \<Rightarrow> session \<Rightarrow> (error + unit) \<times> session" where
  "insert_message c t m sender receiver text s =
     (let (raised, s') = submit (InsertMessage c t m sender receiver text) s
      in if raised then (Inl StorageError, s')
         else (Inr (), s'\<lparr>messages_by_conversation :=
                 upsert_message \<lparr>conversation_id = c, message_time = t, message_id = m,
                   sender_id = sender, receiver_id = receiver, content = text\<rparr>
                   (messages_by_conversation s')\<rparr>))"

text \<open>\<^verbatim>\<open>INSERT INTO conversations_by_user (user_id, last_message_time,
  conversation_id, other_user_id, last_message_sender_id, last_message_content)\<close>.\<close>

definition insert_index ::
  "user \<Rightarrow> timeuuid \<Rightarrow> uuid \<Rightarrow> user \<Rightarrow> user \<Rightarrow> string \<Rightarrow> session \<Rightarrow> (error + unit) \<times> session" where
  "insert_index u t c other sender preview s =
     (let (raised, s') = submit (InsertIndex u t c other sender preview) s
      in if raised then (Inl StorageError, s')
         else (Inr (), s'\<lparr>conversations_by_user :=
                 upsert_index \<lparr>user_id = u, last_message_time = t, index_conversation_id = c,
                   other_user_id = other, last_message_sender_id = sender,
                   last_message_content = preview\<rparr>
                   (conversations_by_user s')\<rparr>))"

text \<open>\<^verbatim>\<open>SELECT ... FROM messages_by_conversation WHERE conversation_id = %s\<close>,
  one page, rows in clustering order.\<close>

definition select_messages ::
  "uuid \<Rightarrow> int \<Rightarrow> nat option \<Rightarrow> session \<Rightarrow> (error + message_row list \<times> nat option) \<times> session" where
  "select_messages c fetch_size paging_state s =
     (let (raised, s') = submit (SelectMessages c) s
      in if raised then (Inl StorageError, s')
         else (Inr (fetch_page fetch_size paging_state
                 (sort_key message_time
                    (filter (\<lambda>r. conversation_id r = c) (messages_by_conversation s')))), s'))"

text \<open>\<^verbatim>\<open>SELECT ... FROM messages_by_conversation WHERE conversation_id = %s AND
  message_time < %s\<close>, one page, rows in clustering order.\<close>

definition select_messages_before ::
  "uuid \<Rightarrow> timeuuid \<Rightarrow> int \<Rightarrow> nat option \<Rightarrow> session
     \<Rightarrow> (error + message_row list \<times> nat option) \<times> session" where
  "select_messages_before c bound fetch_size paging_state s =
     (let (raised, s') = submit (SelectMessagesBefore c bound) s
      in if raised then (Inl StorageError, s')
         else (Inr (fetch_page fetch_size paging_state
                 (sort_key message_time
                    (filter (\<lambda>r. conversation_id r = c \<and> message_time r < bound)
                       (messages_by_conversation s')))), s'))"

text \<open>\<^verbatim>\<open>SELECT ... FROM conversations_by_user WHERE user_id = %s\<close>, one page, rows
  in clustering order.\<close>

definition select_conversations ::
  "user \<Rightarrow> int \<Rightarrow> nat option \<Rightarrow> session \<Rightarrow> (error + index_row list \<times> nat option) \<times> session" where
  "select_conversations u fetch_size paging_state s =
     (let (raised, s') = submit (SelectConversations u) s
      in if raised then (Inl StorageError, s')
         else (Inr (fetch_page fetch_size paging_state
                 (sort_key index_conversation_id
                    (filter (\<lambda>r. user_id r = u) (conversations_by_user s')))), s'))"

subsection \<open>MessageModel\<close>

text \<open>
  \<^verbatim>\<open>MessageModel._get_or_create_conversation_id(user1_id, user2_id)\<close>. The argument
  \<open>new_conversation_id\<close> is the value \<^verbatim>\<open>uuid.uuid4()\<close> yields if the method
  reaches it.
\<close>

definition get_or_create_conversation_id ::
  "user \<Rightarrow> user \<Rightarrow> uuid \<Rightarrow> session \<Rightarrow> (error + uuid) \<times> session" where
  "get_or_create_conversation_id user1_id user2_id new_conversation_id s =
     (if user1_id = user2_id then (Inl ValueError, s)
      else
        let user_a_id = min user1_id user2_id;
            user_b_id = max user1_id user2_id
        in case select_conversation_id user_a_id user_b_id s of
             (Inl e, s1) \<Rightarrow> (Inl e, s1)
           | (Inr (Some found), s1) \<Rightarrow> (Inr found, s1)
           | (Inr None, s1) \<Rightarrow>
               (case insert_conversation user_a_id user_b_id new_conversation_id s1 of
                  (Inl e, s2) \<Rightarrow> (Inl e, s2)
                | (Inr _, s2) \<Rightarrow> (Inr new_conversation_id, s2)))"

text \<open>
  The values \<^verbatim>\<open>create_message\<close> draws from its environment: the two results of
  \<^verbatim>\<open>uuid.uuid4()\<close>, the clock \<^verbatim>\<open>datetime.utcnow()\<close>, and the random bits of
  \<^verbatim>\<open>uuid_from_time\<close>.
\<close>

record draws =
  drawn_conversation_id :: uuid
  utcnow :: datetime
  drawn_time_bits :: nat
  drawn_message_id :: uuid

text \<open>The \<^verbatim>\<open>try\<close> block of \<^verbatim>\<open>create_message\<close>, steps 1 to 4 of its comments.\<close>

definition create_message_try ::
  "user \<Rightarrow> user \<Rightarrow> string \<Rightarrow> draws \<Rightarrow> session \<Rightarrow> (error + uuid \<times> timeuuid \<times> uuid) \<times> session" where
  "create_message_try sender receiver text d s =
     (case get_or_create_conversation_id sender receiver (drawn_conversation_id d) s of
        (Inl e, s1) \<Rightarrow> (Inl e, s1)
      | (Inr c, s1) \<Rightarrow>
          let t = uuid_from_time (utcnow d) (drawn_time_bits d);
              m = drawn_message_id d
          in case insert_message c t m sender receiver text s1 of
               (Inl e, s2) \<Rightarrow> (Inl e, s2)
             | (Inr _, s2) \<Rightarrow>
                 (case insert_index sender t c receiver sender (take 200 text) s2 of
                    (Inl e, s3) \<Rightarrow> (Inl e, s3)
                  | (Inr _, s3) \<Rightarrow>
                      (case insert_index receiver t c sender sender (take 200 text) s3 of
                         (Inl e, s4) \<Rightarrow> (Inl e, s4)
                       | (Inr _, s4) \<Rightarrow> (Inr (c, t, m), s4))))"

text \<open>
  \<^verbatim>\<open>MessageModel.create_message(sender_id, receiver_id, content)\<close> from line 78
  on: the \<^verbatim>\<open>try\<close> block under \<^verbatim>\<open>except Exception\<close>, which returns
  \<^verbatim>\<open>(None, None, None)\<close>. The session is the one line 77 obtained.
\<close>

definition create_message ::
  "user \<Rightarrow> user \<Rightarrow> string \<Rightarrow> draws \<Rightarrow> session
     \<Rightarrow> (error + uuid option \<times> timeuuid option \<times> uuid option) \<times> session" where
  "create_message sender receiver text d s =
     (case create_message_try sender receiver text d s of
        (Inr (c, t, m), s') \<Rightarrow> (Inr (Some c, Some t, Some m), s')
      | (Inl e, s') \<Rightarrow> (Inr (None, None, None), s'))"

text \<open>
  A message as the read operations return it: the selected columns with the two keys the
  loop adds. \<^verbatim>\<open>created_at\<close> is \<^verbatim>\<open>datetime.utcfromtimestamp(msg_timestamp /
  1e9)\<close>; the field holds \<^verbatim>\<open>msg_timestamp\<close>, the division and the conversion to a
  date are left unapplied. \<^verbatim>\<open>id\<close> is the field \<open>id_key\<close>.
\<close>

record message_dict = message_row +
  created_at :: "nat option"
  id_key :: "uuid option"

text \<open>The body of the loop \<^verbatim>\<open>for msg in messages\<close>. A selected row always has its
  clustering column, so \<^verbatim>\<open>msg.get('message_time')\<close> is the column.\<close>

definition created_at_of :: "timeuuid option \<Rightarrow> nat option" where
  "created_at_of column = (case column of Some t \<Rightarrow> Some (uuid_time t) | None \<Rightarrow> None)"

definition annotate :: "message_row \<Rightarrow> message_dict" where
  "annotate msg = message_row.extend msg
     \<lparr>created_at = created_at_of (Some (message_time msg)), id_key = Some (message_id msg)\<rparr>"

text \<open>\<^verbatim>\<open>MessageModel.get_conversation_messages(conversation_id, page_size,
  paging_state)\<close>.\<close>

definition get_conversation_messages ::
  "uuid \<Rightarrow> int \<Rightarrow> nat option \<Rightarrow> session
     \<Rightarrow> (error + message_dict list \<times> nat option) \<times> session" where
  "get_conversation_messages c page_size paging_state s =
     (case select_messages c page_size paging_state s of
        (Inr (current_rows, next_paging_state), s') \<Rightarrow>
          (Inr (map annotate current_rows, next_paging_state), s')
      | (Inl e, s') \<Rightarrow> (Inr ([], None), s'))"

text \<open>\<^verbatim>\<open>MessageModel.get_messages_before_timestamp(conversation_id,
  before_timestamp, page_size, paging_state)\<close>. The argument \<open>random_bits\<close> is the
  draw of \<^verbatim>\<open>uuid_from_time(before_timestamp)\<close>.\<close>

definition get_messages_before_timestamp ::
  "uuid \<Rightarrow> datetime \<Rightarrow> nat \<Rightarrow> int \<Rightarrow> nat option \<Rightarrow> session
     \<Rightarrow> (error + message_dict list \<times> nat option) \<times> session" where
  "get_messages_before_timestamp c before_timestamp random_bits page_size paging_state s =
     (let before_timeuuid = uuid_from_time before_timestamp random_bits
      in case select_messages_before c before_timeuuid page_size paging_state s of
           (Inr (current_rows, next_paging_state), s') \<Rightarrow>
             (Inr (map annotate current_rows, next_paging_state), s')
         | (Inl e, s') \<Rightarrow> (Inr ([], None), s'))"

subsection \<open>ConversationModel\<close>

text \<open>An element of \<^verbatim>\<open>formatted_convos\<close>. \<^verbatim>\<open>id\<close> is the field
  \<open>summary_id\<close>, \<^verbatim>\<open>last_message_content\<close> the field \<open>summary_content\<close>,
  \<^verbatim>\<open>user1_id\<close> and \<^verbatim>\<open>user2_id\<close> the fields with the prefix \<open>summary\<close>;
  \<^verbatim>\<open>last_message_at\<close> holds the time field as \<open>created_at\<close> does.\<close>

record summary =
  summary_id :: "uuid option"
  summary_user1_id :: user
  summary_user2_id :: "user option"
  last_message_at :: "nat option"
  summary_content :: "string option"

definition format_convo :: "user \<Rightarrow> index_row \<Rightarrow> summary" where
  "format_convo u convo =
     \<lparr>summary_id = Some (index_conversation_id convo),
      summary_user1_id = u,
      summary_user2_id = Some (other_user_id convo),
      last_message_at = created_at_of (Some (last_message_time convo)),
      summary_content = Some (last_message_content convo)\<rparr>"

text \<open>\<^verbatim>\<open>ConversationModel.get_user_conversations(user_id, page_size,
  paging_state)\<close>.\<close>

definition get_user_conversations ::
  "user \<Rightarrow> int \<Rightarrow> nat option \<Rightarrow> session \<Rightarrow> (error + summary list \<times> nat option) \<times> session" where
  "get_user_conversations u page_size paging_state s =
     (case select_conversations u page_size paging_state s of
        (Inr (current_rows, next_paging_state), s') \<Rightarrow>
          (Inr (map (format_convo u) current_rows, next_paging_state), s')
      | (Inl e, s') \<Rightarrow> (Inr ([], None), s'))"

text \<open>\<^verbatim>\<open>ConversationModel.create_or_get_conversation(user1_id, user2_id)\<close>.\<close>

definition create_or_get_conversation ::
  "user \<Rightarrow> user \<Rightarrow> uuid \<Rightarrow> session \<Rightarrow> (error + uuid option) \<times> session" where
  "create_or_get_conversation user1_id user2_id new_conversation_id s =
     (case get_or_create_conversation_id user1_id user2_id new_conversation_id s of
        (Inr c, s') \<Rightarrow> (Inr (Some c), s')
      | (Inl e, s') \<Rightarrow> (Inr None, s'))"

subsection \<open>The methods with their call of get_session\<close>










subsection \<open>Vocabulary of the properties\<close>

text \<open>The next call of \<^verbatim>\<open>execute\<close> raises.\<close>

definition fails :: "session \<Rightarrow> bool" where
  "fails s = (case faults s of [] \<Rightarrow> False | f # _ \<Rightarrow> f)"

text \<open>The session after one call of \<^verbatim>\<open>execute\<close>, before the effect of the statement.\<close>

definition logged :: "statement \<Rightarrow> session \<Rightarrow> session" where
  "logged st s = s\<lparr>faults := tl (faults s), executed := executed s @ [st]\<rparr>"

text \<open>The statements that write \<^verbatim>\<open>conversations_by_user\<close>.\<close>

fun is_index_upsert :: "statement \<Rightarrow> bool" where
  "is_index_upsert (InsertIndex u t c other sender preview) = True"
| "is_index_upsert st = False"

text \<open>Rows written in the order of the columns of their INSERT.\<close>

definition index_entry :: "user \<Rightarrow> timeuuid \<Rightarrow> uuid \<Rightarrow> user \<Rightarrow> user \<Rightarrow> string \<Rightarrow> index_row" where
  "index_entry u t c other sender preview =
     \<lparr>user_id = u, last_message_time = t, index_conversation_id = c,
      other_user_id = other, last_message_sender_id = sender,
      last_message_content = preview\<rparr>"

definition message_entry :: "uuid \<Rightarrow> timeuuid \<Rightarrow> uuid \<Rightarrow> user \<Rightarrow> user \<Rightarrow> string \<Rightarrow> message_row" where
  "message_entry c t m sender receiver text =
     \<lparr>conversation_id = c, message_time = t, message_id = m,
      sender_id = sender, receiver_id = receiver, content = text\<rparr>"

text \<open>The index holds at most one row for each key \<^verbatim>\<open>(user_id, conversation_id)\<close>.\<close>

definition index_unique :: "session \<Rightarrow> bool" where
  "index_unique s = distinct (map index_key (conversations_by_user s))"

text \<open>A run of two appends between users 1 and 2 on the empty store, used as an instance below.\<close>

abbreviation first_draws :: draws where
  "first_draws \<equiv> \<lparr>drawn_conversation_id = 10, utcnow = 5, drawn_time_bits = 7,
      drawn_message_id = 20\<rparr>"

abbreviation second_draws :: draws where
  "second_draws \<equiv> \<lparr>drawn_conversation_id = 11, utcnow = 6, drawn_time_bits = 3,
      drawn_message_id = 21\<rparr>"

abbreviation after_first :: session where
  "after_first \<equiv>
     \<lparr>conversation_by_users = [((1, 2), 10)],
      messages_by_conversation = [message_entry 10 (5, 7) 20 1 2 ''hi''],
      conversations_by_user =
        [index_entry 2 (5, 7) 10 1 1 ''hi'', index_entry 1 (5, 7) 10 2 1 ''hi''],
      faults = [],
      executed = [SelectConversationId 1 2, InsertConversation 1 2 10,
        InsertMessage 10 (5, 7) 20 1 2 ''hi'', InsertIndex 1 (5, 7) 10 2 1 ''hi'',
        InsertIndex 2 (5, 7) 10 1 1 ''hi'']\<rparr>"

abbreviation after_second :: session where
  "after_second \<equiv>
     \<lparr>conversation_by_users = [((1, 2), 10)],
      messages_by_conversation =
        [message_entry 10 (6, 3) 21 2 1 ''yo'', message_entry 10 (5, 7) 20 1 2 ''hi''],
      conversations_by_user =
        [index_entry 1 (6, 3) 10 2 2 ''yo'', index_entry 2 (6, 3) 10 1 2 ''yo''],
      faults = [],
      executed = [SelectConversationId 1 2, InsertConversation 1 2 10,
        InsertMessage 10 (5, 7) 20 1 2 ''hi'', InsertIndex 1 (5, 7) 10 2 1 ''hi'',
        InsertIndex 2 (5, 7) 10 1 1 ''hi'', SelectConversationId 1 2,
        InsertMessage 10 (6, 3) 21 2 1 ''yo'', InsertIndex 2 (6, 3) 10 1 2 ''yo'',
        InsertIndex 1 (6, 3) 10 2 2 ''yo'']\<rparr>"

text \<open>A store whose next call raises, and a conversation with three messages.\<close>

abbreviation failing_session :: session where
  "failing_session \<equiv> \<lparr>conversation_by_users = [], messages_by_conversation = [],
     conversations_by_user = [], faults = [True], executed = []\<rparr>"

abbreviation three_messages :: session where
  "three_messages \<equiv>
     \<lparr>conversation_by_users = [((1, 2), 10)],
      messages_by_conversation =
        [message_entry 10 (6, 0) 22 1 2 ''c'', message_entry 10 (5, 3) 21 2 1 ''b'',
         message_entry 10 (5, 1) 20 1 2 ''a''],
      conversations_by_user = [], faults = [], executed = []\<rparr>"

section \<open>Facts about the storage collaborator\<close>

lemma submit_eq: "submit st s = (fails s, logged st s)"
  by (cases "faults s") (simp_all add: submit_def fails_def logged_def)

lemma logged_fields [simp]:
  "conversation_by_users (logged st s) = conversation_by_users s"
  "messages_by_conversation (logged st s) = messages_by_conversation s"
  "conversations_by_user (logged st s) = conversations_by_user s"
  "faults (logged st s) = tl (faults s)"
  "executed (logged st s) = executed s @ [st]"
  by (simp_all add: logged_def)

lemma fails_update [simp]:
  "fails (s\<lparr>conversation_by_users := x\<rparr>) = fails s"
  "fails (s\<lparr>messages_by_conversation := y\<rparr>) = fails s"
  "fails (s\<lparr>conversations_by_user := z\<rparr>) = fails s"
  by (simp_all add: fails_def)

lemma select_conversation_id_eq:
  "select_conversation_id a b s =
     (if fails s then Inl StorageError else Inr (map_of (conversation_by_users s) (a, b)),
      logged (SelectConversationId a b) s)"
  by (simp add: select_conversation_id_def submit_eq)

lemma insert_conversation_eq:
  "insert_conversation a b c s =
     (if fails s then (Inl StorageError, logged (InsertConversation a b c) s)
      else (Inr (), (logged (InsertConversation a b c) s)\<lparr>conversation_by_users :=
              upsert_conversation a b c (conversation_by_users s)\<rparr>))"
  by (simp add: insert_conversation_def submit_eq)

lemma insert_message_eq:
  "insert_message c t m sender receiver text s =
     (if fails s then (Inl StorageError, logged (InsertMessage c t m sender receiver text) s)
      else (Inr (), (logged (InsertMessage c t m sender receiver text) s)
              \<lparr>messages_by_conversation :=
                 upsert_message (message_entry c t m sender receiver text)
                   (messages_by_conversation s)\<rparr>))"
  by (simp add: insert_message_def submit_eq message_entry_def)

lemma insert_index_eq:
  "insert_index u t c other sender preview s =
     (if fails s then (Inl StorageError, logged (InsertIndex u t c other sender preview) s)
      else (Inr (), (logged (InsertIndex u t c other sender preview) s)
              \<lparr>conversations_by_user :=
                 upsert_index (index_entry u t c other sender preview)
                   (conversations_by_user s)\<rparr>))"
  by (simp add: insert_index_def submit_eq index_entry_def)

lemma select_messages_eq:
  "select_messages c fetch_size paging_state s =
     (if fails s then Inl StorageError
      else Inr (fetch_page fetch_size paging_state
             (sort_key message_time
                (filter (\<lambda>r. conversation_id r = c) (messages_by_conversation s)))),
      logged (SelectMessages c) s)"
  by (simp add: select_messages_def submit_eq)

lemma select_messages_before_eq:
  "select_messages_before c bound fetch_size paging_state s =
     (if fails s then Inl StorageError
      else Inr (fetch_page fetch_size paging_state
             (sort_key message_time
                (filter (\<lambda>r. conversation_id r = c \<and> message_time r < bound)
                   (messages_by_conversation s)))),
      logged (SelectMessagesBefore c bound) s)"
  by (simp add: select_messages_before_def submit_eq)

lemma select_conversations_eq:
  "select_conversations u fetch_size paging_state s =
     (if fails s then Inl StorageError
      else Inr (fetch_page fetch_size paging_state
             (sort_key index_conversation_id
                (filter (\<lambda>r. user_id r = u) (conversations_by_user s)))),
      logged (SelectConversations u) s)"
  by (simp add: select_conversations_def submit_eq)

lemma map_of_upsert_conversation:
  "map_of (upsert_conversation a b c rows) (a, b) = Some c"
  by (simp add: upsert_conversation_def)

lemma index_key_entry [simp]: "index_key (index_entry u t c other sender preview) = (u, c)"
  by (simp add: index_key_def index_entry_def)

lemma message_key_entry [simp]: "message_key (message_entry c t m sender receiver text) = (c, t)"
  by (simp add: message_key_def message_entry_def)

lemma filter_upsert_index:
  "filter (\<lambda>x. index_key x = k) (upsert_index r rows) =
     (if index_key r = k then [r] else filter (\<lambda>x. index_key x = k) rows)"
  by (auto simp: upsert_index_def filter_empty_conv intro!: filter_cong)

lemma filter_upsert_message:
  "filter (\<lambda>x. message_key x = k) (upsert_message r rows) =
     (if message_key r = k then [r] else filter (\<lambda>x. message_key x = k) rows)"
  by (auto simp: upsert_message_def filter_empty_conv intro!: filter_cong)

lemma distinct_upsert_index:
  "distinct (map index_key rows) \<Longrightarrow> distinct (map index_key (upsert_index r rows))"
  by (auto simp: upsert_index_def distinct_map_filter)

lemma set_fetch_page: "set (fst (fetch_page n p rows)) \<subseteq> set rows"
  by (auto simp: fetch_page_def Let_def dest: in_set_dropD in_set_takeD)

lemma distinct_fetch_page:
  "distinct (map f rows) \<Longrightarrow> distinct (map f (fst (fetch_page n p rows)))"
  by (simp add: fetch_page_def Let_def distinct_drop distinct_take drop_map [symmetric]
      take_map [symmetric])


text \<open>The definitions a run on a concrete store unfolds.\<close>

lemmas run_defs = get_or_create_conversation_id_def select_conversation_id_def
  insert_conversation_def insert_message_def insert_index_def submit_def
  create_message_def create_message_try_def empty_session_def upsert_conversation_def
  upsert_message_def upsert_index_def message_key_def index_key_def uuid_from_time_def
  index_entry_def message_entry_def Let_def

section \<open>Identity resolution\<close>

lemma resolve_returns:
  assumes "get_or_create_conversation_id a b n s = (Inr c, s1)"
  shows "a \<noteq> b"
    and "map_of (conversation_by_users s1) (min a b, max a b) = Some c"
    and "messages_by_conversation s1 = messages_by_conversation s"
    and "conversations_by_user s1 = conversations_by_user s"
    and "executed s1 = executed s @ [SelectConversationId (min a b) (max a b)]
         \<or> executed s1 = executed s @ [SelectConversationId (min a b) (max a b),
              InsertConversation (min a b) (max a b) n]"
  using assms
  by (auto simp: get_or_create_conversation_id_def select_conversation_id_eq
      insert_conversation_eq map_of_upsert_conversation Let_def
      split: if_splits option.splits)

lemma resolve_known:
  assumes "a \<noteq> b" and "map_of (conversation_by_users s) (min a b, max a b) = Some c"
    and "\<not> fails s"
  shows "get_or_create_conversation_id a b n s =
           (Inr c, logged (SelectConversationId (min a b) (max a b)) s)"
  using assms
  by (simp add: get_or_create_conversation_id_def select_conversation_id_eq Let_def)

lemma resolve_returns_known:
  assumes "get_or_create_conversation_id a b n s = (Inr c, s1)"
    and "map_of (conversation_by_users s) (min a b, max a b) = Some c0"
  shows "c = c0"
  using assms
  by (auto simp: get_or_create_conversation_id_def select_conversation_id_eq Let_def
      split: if_splits)

text \<open>
  C5. For every user \<open>a\<close>, resolving the pair \<open>(a, a)\<close> raises the invalid-argument
  error (a \<^verbatim>\<open>ValueError\<close>): no identifier is returned and the session is untouched,
  so no statement reached the store. The public wrapper turns the same error into
  \<^verbatim>\<open>None\<close>, again without touching the session.
\<close>

theorem self_conversation_rejected:
  "get_or_create_conversation_id a a n s = (Inl ValueError, s)
   \<and> create_or_get_conversation a a n s = (Inr None, s)"
  by (simp add: get_or_create_conversation_id_def create_or_get_conversation_def)

theorem self_conversation_rejected_witness:
  "get_or_create_conversation_id 3 3 10 after_first = (Inl ValueError, after_first)
   \<and> create_or_get_conversation 3 3 10 after_first = (Inr None, after_first)"
  by (rule self_conversation_rejected)

text \<open>
  C3. For distinct users \<open>a\<close> and \<open>b\<close>, once a first call has returned the identifier
  \<open>c1\<close>, a second call on the store it left (whose read does not fail) returns the same
  identifier; it leaves the three tables as they are and hands the store one statement only,
  the SELECT on the canonical pair.
\<close>

theorem resolve_idempotent:
  assumes "a \<noteq> b"
    and "get_or_create_conversation_id a b n1 s = (Inr c1, s1)"
    and "\<not> fails s1"
    and "get_or_create_conversation_id a b n2 s1 = (r2, s2)"
  shows "r2 = Inr c1
     \<and> conversation_by_users s2 = conversation_by_users s1
     \<and> messages_by_conversation s2 = messages_by_conversation s1
     \<and> conversations_by_user s2 = conversations_by_user s1
     \<and> executed s2 = executed s1 @ [SelectConversationId (min a b) (max a b)]"
  using resolve_known [OF assms(1) resolve_returns(2) [OF assms(2)] assms(3), of n2] assms(4)
  by auto

theorem resolve_idempotent_witness:
  "get_or_create_conversation_id 2 1 10 empty_session =
     (Inr 10, \<lparr>conversation_by_users = [((1, 2), 10)], messages_by_conversation = [],
        conversations_by_user = [], faults = [],
        executed = [SelectConversationId 1 2, InsertConversation 1 2 10]\<rparr>)
   \<and> get_or_create_conversation_id 2 1 11
        \<lparr>conversation_by_users = [((1, 2), 10)], messages_by_conversation = [],
         conversations_by_user = [], faults = [],
         executed = [SelectConversationId 1 2, InsertConversation 1 2 10]\<rparr> =
     (Inr 10, \<lparr>conversation_by_users = [((1, 2), 10)], messages_by_conversation = [],
        conversations_by_user = [], faults = [],
        executed = [SelectConversationId 1 2, InsertConversation 1 2 10,
          SelectConversationId 1 2]\<rparr>)"
proof -
  let ?s1 = "\<lparr>conversation_by_users = [((1, 2), 10)], messages_by_conversation = [],
        conversations_by_user = [], faults = [],
        executed = [SelectConversationId 1 2, InsertConversation 1 2 10]\<rparr>"
  have h1: "(2::int) \<noteq> 1" by simp
  have h2: "get_or_create_conversation_id 2 1 10 empty_session = (Inr 10, ?s1)"
    by (simp add: run_defs)
  have h3: "\<not> fails ?s1" by (simp add: fails_def)
  obtain r2 s2 where h4: "get_or_create_conversation_id 2 1 11 ?s1 = (r2, s2)"
    by (cases "get_or_create_conversation_id 2 1 11 ?s1")
  from resolve_idempotent [OF h1 h2 h3 h4] h2 h4 show ?thesis
    by (simp add: run_defs)
qed

text \<open>
  C4. The pair is put in the order (min, max) before the lookup and before the insert, so
  the method does the same with \<open>(a, b)\<close> and with \<open>(b, a)\<close> on every store: same
  result, same store afterwards. And once \<open>(a, b)\<close> has been resolved to \<open>c\<close>, a call
  with \<open>(b, a)\<close> on the store it left (whose read does not fail) returns \<open>c\<close>.
\<close>

theorem resolve_commutes:
  "get_or_create_conversation_id a b n s = get_or_create_conversation_id b a n s
   \<and> (\<forall>c s1 n'. get_or_create_conversation_id a b n s = (Inr c, s1) \<and> \<not> fails s1
        \<longrightarrow> fst (get_or_create_conversation_id b a n' s1) = Inr c)"
proof
  show "get_or_create_conversation_id a b n s = get_or_create_conversation_id b a n s"
    by (auto simp: get_or_create_conversation_id_def min.commute max.commute)
next
  show "\<forall>c s1 n'. get_or_create_conversation_id a b n s = (Inr c, s1) \<and> \<not> fails s1
        \<longrightarrow> fst (get_or_create_conversation_id b a n' s1) = Inr c"
  proof (intro allI impI, elim conjE)
    fix c s1 n'
    assume r: "get_or_create_conversation_id a b n s = (Inr c, s1)" and nf: "\<not> fails s1"
    have ne: "b \<noteq> a" using resolve_returns(1) [OF r] by simp
    have known: "map_of (conversation_by_users s1) (min b a, max b a) = Some c"
      using resolve_returns(2) [OF r] by (simp add: min.commute max.commute)
    show "fst (get_or_create_conversation_id b a n' s1) = Inr c"
      by (simp add: resolve_known [OF ne known nf])
  qed
qed

theorem resolve_commutes_witness:
  "get_or_create_conversation_id 1 2 10 empty_session =
     get_or_create_conversation_id 2 1 10 empty_session
   \<and> get_or_create_conversation_id 1 2 10 empty_session =
     (Inr 10, \<lparr>conversation_by_users = [((1, 2), 10)], messages_by_conversation = [],
        conversations_by_user = [], faults = [],
        executed = [SelectConversationId 1 2, InsertConversation 1 2 10]\<rparr>)
   \<and> fst (get_or_create_conversation_id 2 1 11
        \<lparr>conversation_by_users = [((1, 2), 10)], messages_by_conversation = [],
         conversations_by_user = [], faults = [],
         executed = [SelectConversationId 1 2, InsertConversation 1 2 10]\<rparr>) = Inr 10"
proof -
  let ?s1 = "\<lparr>conversation_by_users = [((1, 2), 10)], messages_by_conversation = [],
        conversations_by_user = [], faults = [],
        executed = [SelectConversationId 1 2, InsertConversation 1 2 10]\<rparr>"
  have h1: "get_or_create_conversation_id 1 2 10 empty_session = (Inr 10, ?s1)"
    by (simp add: run_defs)
  have h2: "\<not> fails ?s1" by (simp add: fails_def)
  from resolve_commutes [of 1 2 10 empty_session] h1 h2 show ?thesis
    by auto
qed

section \<open>Appending a message\<close>

lemma create_message_returns:
  assumes "create_message sender receiver text d s = (Inr (Some c, Some t, Some m), s')"
  shows "create_message_try sender receiver text d s = (Inr (c, t, m), s')"
  using assms by (auto simp: create_message_def split: prod.splits sum.splits)

lemma try_returns:
  assumes "create_message_try sender receiver text d s = (Inr (c, t, m), s')"
  shows "\<exists>s1. get_or_create_conversation_id sender receiver (drawn_conversation_id d) s = (Inr c, s1)
     \<and> t = uuid_from_time (utcnow d) (drawn_time_bits d)
     \<and> m = drawn_message_id d
     \<and> conversation_by_users s' = conversation_by_users s1
     \<and> messages_by_conversation s' =
         upsert_message (message_entry c t m sender receiver text) (messages_by_conversation s1)
     \<and> conversations_by_user s' =
         upsert_index (index_entry receiver t c sender sender (take 200 text))
           (upsert_index (index_entry sender t c receiver sender (take 200 text))
             (conversations_by_user s1))
     \<and> executed s' = executed s1 @
         [InsertMessage c t m sender receiver text,
          InsertIndex sender t c receiver sender (take 200 text),
          InsertIndex receiver t c sender sender (take 200 text)]"
  using assms
  by (auto simp: create_message_try_def insert_message_eq insert_index_eq Let_def
      split: prod.splits sum.splits if_splits)

lemma append_returns:
  assumes "create_message sender receiver text d s = (Inr (Some c, Some t, Some m), s')"
  shows "sender \<noteq> receiver"
    and "t = uuid_from_time (utcnow d) (drawn_time_bits d)"
    and "m = drawn_message_id d"
    and "map_of (conversation_by_users s') (min sender receiver, max sender receiver) = Some c"
    and "messages_by_conversation s' =
           upsert_message (message_entry c t m sender receiver text) (messages_by_conversation s)"
    and "conversations_by_user s' =
           upsert_index (index_entry receiver t c sender sender (take 200 text))
             (upsert_index (index_entry sender t c receiver sender (take 200 text))
                (conversations_by_user s))"
    and "\<exists>resolved. executed s' = executed s @ resolved @
           [InsertMessage c t m sender receiver text,
            InsertIndex sender t c receiver sender (take 200 text),
            InsertIndex receiver t c sender sender (take 200 text)]
         \<and> filter is_index_upsert resolved = []"
proof -
  from try_returns [OF create_message_returns [OF assms]]
  obtain s1 where r: "get_or_create_conversation_id sender receiver (drawn_conversation_id d) s = (Inr c, s1)"
    and rest: "t = uuid_from_time (utcnow d) (drawn_time_bits d)" "m = drawn_message_id d"
      "conversation_by_users s' = conversation_by_users s1"
      "messages_by_conversation s' =
         upsert_message (message_entry c t m sender receiver text) (messages_by_conversation s1)"
      "conversations_by_user s' =
         upsert_index (index_entry receiver t c sender sender (take 200 text))
           (upsert_index (index_entry sender t c receiver sender (take 200 text))
             (conversations_by_user s1))"
      "executed s' = executed s1 @
         [InsertMessage c t m sender receiver text,
          InsertIndex sender t c receiver sender (take 200 text),
          InsertIndex receiver t c sender sender (take 200 text)]"
    by blast
  note rr = resolve_returns [OF r]
  show "sender \<noteq> receiver" by (rule rr(1))
  show "t = uuid_from_time (utcnow d) (drawn_time_bits d)" by (rule rest(1))
  show "m = drawn_message_id d" by (rule rest(2))
  show "map_of (conversation_by_users s') (min sender receiver, max sender receiver) = Some c"
    using rr(2) rest(3) by simp
  show "messages_by_conversation s' =
           upsert_message (message_entry c t m sender receiver text) (messages_by_conversation s)"
    using rest(4) rr(3) by simp
  show "conversations_by_user s' =
           upsert_index (index_entry receiver t c sender sender (take 200 text))
             (upsert_index (index_entry sender t c receiver sender (take 200 text))
                (conversations_by_user s))"
    using rest(5) rr(4) by simp
  show "\<exists>resolved. executed s' = executed s @ resolved @
           [InsertMessage c t m sender receiver text,
            InsertIndex sender t c receiver sender (take 200 text),
            InsertIndex receiver t c sender sender (take 200 text)]
         \<and> filter is_index_upsert resolved = []"
    using rr(5) rest(6) by auto
qed

lemma index_after_append:
  assumes "create_message sender receiver text d s = (Inr (Some c, Some t, Some m), s')"
  shows "filter (\<lambda>r. index_key r = (sender, c)) (conversations_by_user s') =
           [index_entry sender t c receiver sender (take 200 text)]"
    and "filter (\<lambda>r. index_key r = (receiver, c)) (conversations_by_user s') =
           [index_entry receiver t c sender sender (take 200 text)]"
  using append_returns(1) [OF assms]
  by (simp_all add: append_returns(6) [OF assms] filter_upsert_index)

lemma append_returns_known:
  assumes "create_message sender receiver text d s = (Inr (Some c, Some t, Some m), s')"
    and "map_of (conversation_by_users s) (min sender receiver, max sender receiver) = Some c0"
  shows "c = c0"
proof -
  from try_returns [OF create_message_returns [OF assms(1)]]
  obtain s1 where "get_or_create_conversation_id sender receiver (drawn_conversation_id d) s = (Inr c, s1)"
    by blast
  then show ?thesis using assms(2) by (rule resolve_returns_known)
qed

lemma first_append:
  "create_message 1 2 ''hi'' first_draws empty_session =
     (Inr (Some 10, Some (5, 7), Some 20), after_first)"
  by (simp add: run_defs)

lemma second_append:
  "create_message 2 1 ''yo'' second_draws after_first =
     (Inr (Some 10, Some (6, 3), Some 21), after_second)"
  by (simp add: run_defs)

text \<open>
  C6. Every append that succeeds hands the store exactly two writes of the index, in this
  order: the row of the sender (\<open>user_id\<close> the sender, \<open>other_user_id\<close> the receiver) and
  the row of the receiver (\<open>user_id\<close> the receiver, \<open>other_user_id\<close> the sender). Both
  carry the same time key, the same conversation, the sender as
  \<open>last_message_sender_id\<close> and the first 200 characters of the content. The index
  afterwards is the index before with these two rows upserted.
\<close>

theorem fan_out_mirror:
  assumes "create_message sender receiver text d s = (Inr (Some c, Some t, Some m), s')"
  shows "filter is_index_upsert (drop (length (executed s)) (executed s')) =
           [InsertIndex sender t c receiver sender (take 200 text),
            InsertIndex receiver t c sender sender (take 200 text)]
     \<and> conversations_by_user s' =
           upsert_index (index_entry receiver t c sender sender (take 200 text))
             (upsert_index (index_entry sender t c receiver sender (take 200 text))
                (conversations_by_user s))"
proof -
  from append_returns(7) [OF assms]
  obtain resolved where ex: "executed s' = executed s @ resolved @
           [InsertMessage c t m sender receiver text,
            InsertIndex sender t c receiver sender (take 200 text),
            InsertIndex receiver t c sender sender (take 200 text)]"
    and none: "filter is_index_upsert resolved = []"
    by blast
  have "filter is_index_upsert (drop (length (executed s)) (executed s')) =
           [InsertIndex sender t c receiver sender (take 200 text),
            InsertIndex receiver t c sender sender (take 200 text)]"
    using ex none by simp
  then show ?thesis using append_returns(6) [OF assms] by simp
qed

theorem fan_out_mirror_witness:
  "create_message 1 2 ''hi'' first_draws empty_session =
     (Inr (Some 10, Some (5, 7), Some 20), after_first)
   \<and> filter is_index_upsert (drop (length (executed empty_session)) (executed after_first)) =
       [InsertIndex 1 (5, 7) 10 2 1 ''hi'', InsertIndex 2 (5, 7) 10 1 1 ''hi'']
   \<and> conversations_by_user after_first =
       [index_entry 2 (5, 7) 10 1 1 ''hi'', index_entry 1 (5, 7) 10 2 1 ''hi'']"
  using fan_out_mirror [OF first_append] first_append
  by simp

text \<open>
  C7. When the content is longer than 200 characters and the append succeeds, the rows of
  the index for the sender and for the receiver hold the first 200 characters of the
  content, a text of length 200 that differs from the content, and the row of the message
  in the log of the conversation holds the content itself.
\<close>

theorem preview_truncated:
  assumes "200 < length text"
    and "create_message sender receiver text d s = (Inr (Some c, Some t, Some m), s')"
  shows "map last_message_content
           (filter (\<lambda>r. index_key r = (sender, c)) (conversations_by_user s')) = [take 200 text]
     \<and> map last_message_content
           (filter (\<lambda>r. index_key r = (receiver, c)) (conversations_by_user s')) = [take 200 text]
     \<and> length (take 200 text) = 200
     \<and> take 200 text \<noteq> text
     \<and> map content
           (filter (\<lambda>r. message_key r = (c, t)) (messages_by_conversation s')) = [text]"
proof -
  have "map content (filter (\<lambda>r. message_key r = (c, t)) (messages_by_conversation s')) = [text]"
    by (simp add: append_returns(5) [OF assms(2)] filter_upsert_message)
       (simp add: message_entry_def)
  moreover have "length (take 200 text) = 200" and "take 200 text \<noteq> text"
    using assms(1) by (auto simp: take_all_iff)
  moreover have "map last_message_content
           (filter (\<lambda>r. index_key r = (sender, c)) (conversations_by_user s')) = [take 200 text]"
    and "map last_message_content
           (filter (\<lambda>r. index_key r = (receiver, c)) (conversations_by_user s')) = [take 200 text]"
    by (simp_all add: index_after_append [OF assms(2)]) (simp_all add: index_entry_def)
  ultimately show ?thesis by simp
qed

theorem preview_truncated_witness:
  "200 < length (replicate 201 CHR ''a'')
   \<and> fst (create_message 1 2 (replicate 201 CHR ''a'') first_draws empty_session) =
       Inr (Some 10, Some (5, 7), Some 20)
   \<and> map last_message_content (filter (\<lambda>r. index_key r = (1, 10))
        (conversations_by_user
           (snd (create_message 1 2 (replicate 201 CHR ''a'') first_draws empty_session)))) =
       [replicate 200 CHR ''a'']
   \<and> map content (filter (\<lambda>r. message_key r = (10, (5, 7)))
        (messages_by_conversation
           (snd (create_message 1 2 (replicate 201 CHR ''a'') first_draws empty_session)))) =
       [replicate 201 CHR ''a'']"
proof -
  let ?text = "replicate 201 CHR ''a''"
  have h1: "200 < length ?text" by simp
  obtain s' where h2: "create_message 1 2 ?text first_draws empty_session =
      (Inr (Some 10, Some (5, 7), Some 20), s')"
    by (simp add: run_defs)
  from preview_truncated [OF h1 h2] h1 h2 show ?thesis by simp
qed

subsection \<open>The index keeps one row for each user and conversation\<close>

lemma index_unique_empty: "index_unique empty_session"
  by (simp add: index_unique_def empty_session_def)

lemma index_unique_resolve:
  "get_or_create_conversation_id a b n s = (r, s1) \<Longrightarrow> index_unique s \<Longrightarrow> index_unique s1"
  by (auto simp: get_or_create_conversation_id_def select_conversation_id_eq
      insert_conversation_eq index_unique_def Let_def split: option.splits if_splits)

lemma index_unique_insert_message:
  "insert_message c t m a b text s = (r, s1) \<Longrightarrow> index_unique s \<Longrightarrow> index_unique s1"
  by (auto simp: insert_message_eq index_unique_def split: if_splits)

lemma index_unique_insert_index:
  "insert_index u t c other sender preview s = (r, s1) \<Longrightarrow> index_unique s \<Longrightarrow> index_unique s1"
  by (auto simp: insert_index_eq index_unique_def distinct_upsert_index split: if_splits)

lemma index_unique_try:
  assumes "index_unique s" and "create_message_try sender receiver text d s = (r, s')"
  shows "index_unique s'"
proof -
  let ?t = "uuid_from_time (utcnow d) (drawn_time_bits d)"
  obtain r1 s1 where 1:
    "get_or_create_conversation_id sender receiver (drawn_conversation_id d) s = (r1, s1)"
    by (cases "get_or_create_conversation_id sender receiver (drawn_conversation_id d) s")
  have u1: "index_unique s1" by (rule index_unique_resolve [OF 1 assms(1)])
  show ?thesis
  proof (cases r1)
    case (Inl e)
    with assms(2) 1 u1 show ?thesis by (simp add: create_message_try_def)
  next
    case (Inr c)
    obtain r2 s2 where 2:
      "insert_message c ?t (drawn_message_id d) sender receiver text s1 = (r2, s2)"
      by (cases "insert_message c ?t (drawn_message_id d) sender receiver text s1")
    have u2: "index_unique s2" by (rule index_unique_insert_message [OF 2 u1])
    obtain r3 s3 where 3:
      "insert_index sender ?t c receiver sender (take 200 text) s2 = (r3, s3)"
      by (cases "insert_index sender ?t c receiver sender (take 200 text) s2")
    have u3: "index_unique s3" by (rule index_unique_insert_index [OF 3 u2])
    obtain r4 s4 where 4:
      "insert_index receiver ?t c sender sender (take 200 text) s3 = (r4, s4)"
      by (cases "insert_index receiver ?t c sender sender (take 200 text) s3")
    have u4: "index_unique s4" by (rule index_unique_insert_index [OF 4 u3])
    from assms(2) 1 Inr 2 3 4 u2 u3 u4 show ?thesis
      by (auto simp: create_message_try_def Let_def split: sum.splits)
  qed
qed

text \<open>Every append, whether it succeeds or not, keeps the index free of duplicate keys.\<close>

lemma index_unique_create_message:
  assumes "index_unique s" and "create_message sender receiver text d s = (r, s')"
  shows "index_unique s'"
proof -
  obtain r0 s0 where t: "create_message_try sender receiver text d s = (r0, s0)"
    by (cases "create_message_try sender receiver text d s")
  from index_unique_try [OF assms(1) t] assms(2) t show ?thesis
    by (auto simp: create_message_def split: sum.splits)
qed

lemma get_user_conversations_eq:
  "get_user_conversations u page_size paging_state s =
     (if fails s then Inr ([], None)
      else Inr (map (format_convo u)
             (fst (fetch_page page_size paging_state
                (sort_key index_conversation_id
                   (filter (\<lambda>r. user_id r = u) (conversations_by_user s))))),
           snd (fetch_page page_size paging_state
                (sort_key index_conversation_id
                   (filter (\<lambda>r. user_id r = u) (conversations_by_user s))))),
      logged (SelectConversations u) s)"
  by (simp add: get_user_conversations_def select_conversations_eq split: prod.splits)

lemma distinct_partition:
  "distinct (map index_key rows) \<Longrightarrow>
   distinct (map index_conversation_id (filter (\<lambda>r. user_id r = u) rows))"
  by (induction rows) (force simp: index_key_def image_iff)+

lemma distinct_map_sort_key:
  "distinct (map f (sort_key k xs)) = distinct (map f xs)"
  by (simp add: distinct_map)

lemma summary_id_format:
  "map (summary_id \<circ> format_convo u) rows = map (\<lambda>r. Some (index_conversation_id r)) rows"
  by (simp add: format_convo_def)

lemma listing_distinct:
  assumes "index_unique s"
    and "get_user_conversations u n p s = (Inr (page, next), s')"
  shows "distinct (map summary_id page)"
proof (cases "fails s")
  case True
  with assms(2) show ?thesis by (simp add: get_user_conversations_eq)
next
  case False
  let ?rows = "sort_key index_conversation_id
     (filter (\<lambda>r. user_id r = u) (conversations_by_user s))"
  have "distinct (map index_conversation_id ?rows)"
    using assms(1) by (simp add: distinct_map_sort_key distinct_partition index_unique_def)
  then have "distinct (map index_conversation_id (fst (fetch_page n p ?rows)))"
    by (rule distinct_fetch_page)
  then have "distinct (map (\<lambda>r. Some (index_conversation_id r)) (fst (fetch_page n p ?rows)))"
    by (simp add: distinct_map inj_on_def)
  moreover have "page = map (format_convo u) (fst (fetch_page n p ?rows))"
    using assms(2) False by (simp add: get_user_conversations_eq)
  ultimately show ?thesis by (simp add: summary_id_format)
qed

lemma listing_entry:
  assumes "filter (\<lambda>r. index_key r = (u, c)) (conversations_by_user s) = [e]"
    and "\<not> fails s"
  shows "\<exists>page next s'. get_user_conversations u 0 None s = (Inr (page, next), s')
           \<and> filter (\<lambda>x. summary_id x = Some c) page = [format_convo u e]"
proof -
  have "filter (\<lambda>r. index_conversation_id r = c)
          (filter (\<lambda>r. user_id r = u) (conversations_by_user s))
        = filter (\<lambda>r. index_key r = (u, c)) (conversations_by_user s)"
    by (auto simp: index_key_def intro!: filter_cong)
  then have "filter (\<lambda>r. index_conversation_id r = c)
      (sort_key index_conversation_id
         (filter (\<lambda>r. user_id r = u) (conversations_by_user s))) = [e]"
    using assms(1) by (simp add: filter_sort)
  then show ?thesis
    using assms(2)
    by (simp add: get_user_conversations_eq fetch_page_def filter_map o_def format_convo_def)
qed

text \<open>
  C2. Take a store whose index has at most one row for each key
  \<^verbatim>\<open>(user_id, conversation_id)\<close> (the empty store has, and every append keeps it so),
  an append between \<open>a\<close> and \<open>b\<close> that succeeds, and a second append between the same
  two users, in either direction, that succeeds. Then both are in the same conversation;
  the index still has at most one row for each key; the row of each participant for this
  conversation is the one written by the second append (its time key, its sender, the first
  200 characters of its content); no page of \<^verbatim>\<open>get_user_conversations\<close>, for any
  user, page size and paging state, lists a conversation twice; and the unpaged listing of
  each participant, when its read does not fail, has exactly one entry for the
  conversation, made from that row.
\<close>

theorem recency_overwrite:
  assumes "index_unique s"
    and "create_message a b text1 d1 s = (Inr (Some c1, Some t1, Some m1), s1)"
    and "(x = a \<and> y = b) \<or> (x = b \<and> y = a)"
    and "create_message x y text2 d2 s1 = (Inr (Some c2, Some t2, Some m2), s2)"
  shows "c2 = c1 \<and> index_unique s2
     \<and> filter (\<lambda>r. index_key r = (x, c1)) (conversations_by_user s2) =
           [index_entry x t2 c1 y x (take 200 text2)]
     \<and> filter (\<lambda>r. index_key r = (y, c1)) (conversations_by_user s2) =
           [index_entry y t2 c1 x x (take 200 text2)]
     \<and> (\<forall>u n p page next s3. get_user_conversations u n p s2 = (Inr (page, next), s3)
            \<longrightarrow> distinct (map summary_id page))
     \<and> (\<not> fails s2 \<longrightarrow>
           (\<exists>page next s3. get_user_conversations x 0 None s2 = (Inr (page, next), s3)
              \<and> filter (\<lambda>e. summary_id e = Some c1) page =
                  [format_convo x (index_entry x t2 c1 y x (take 200 text2))])
         \<and> (\<exists>page next s3. get_user_conversations y 0 None s2 = (Inr (page, next), s3)
              \<and> filter (\<lambda>e. summary_id e = Some c1) page =
                  [format_convo y (index_entry y t2 c1 x x (take 200 text2))]))"
proof -
  have known: "map_of (conversation_by_users s1) (min x y, max x y) = Some c1"
    using append_returns(4) [OF assms(2)] assms(3) by (auto simp: min.commute max.commute)
  have c: "c2 = c1" by (rule append_returns_known [OF assms(4) known])
  have u1: "index_unique s1" by (rule index_unique_create_message [OF assms(1) assms(2)])
  have u2: "index_unique s2" by (rule index_unique_create_message [OF u1 assms(4)])
  note e = index_after_append [OF assms(4) [unfolded c]]
  have d: "\<forall>u n p page next s3. get_user_conversations u n p s2 = (Inr (page, next), s3)
            \<longrightarrow> distinct (map summary_id page)"
    using listing_distinct [OF u2] by blast
  have l: "\<not> fails s2 \<longrightarrow>
           (\<exists>page next s3. get_user_conversations x 0 None s2 = (Inr (page, next), s3)
              \<and> filter (\<lambda>e. summary_id e = Some c1) page =
                  [format_convo x (index_entry x t2 c1 y x (take 200 text2))])
         \<and> (\<exists>page next s3. get_user_conversations y 0 None s2 = (Inr (page, next), s3)
              \<and> filter (\<lambda>e. summary_id e = Some c1) page =
                  [format_convo y (index_entry y t2 c1 x x (take 200 text2))])"
    using listing_entry [OF e(1)] listing_entry [OF e(2)] by blast
  from c u2 e d l show ?thesis by blast
qed

theorem recency_overwrite_witness:
  "index_unique empty_session
   \<and> create_message 1 2 ''hi'' first_draws empty_session =
       (Inr (Some 10, Some (5, 7), Some 20), after_first)
   \<and> create_message 2 1 ''yo'' second_draws after_first =
       (Inr (Some 10, Some (6, 3), Some 21), after_second)
   \<and> filter (\<lambda>r. index_key r = (2, 10)) (conversations_by_user after_second) =
       [index_entry 2 (6, 3) 10 1 2 ''yo'']
   \<and> filter (\<lambda>r. index_key r = (1, 10)) (conversations_by_user after_second) =
       [index_entry 1 (6, 3) 10 2 2 ''yo'']
   \<and> fst (get_user_conversations 1 0 None after_second) =
       Inr ([\<lparr>summary_id = Some 10, summary_user1_id = 1, summary_user2_id = Some 2,
               last_message_at = Some 6, summary_content = Some ''yo''\<rparr>], None)"
proof -
  have h3: "(2 = (1::int) \<and> 1 = (2::int)) \<or> (2 = (2::int) \<and> 1 = (1::int))" by simp
  have l: "fst (get_user_conversations 1 0 None after_second) =
       Inr ([\<lparr>summary_id = Some 10, summary_user1_id = 1, summary_user2_id = Some 2,
               last_message_at = Some 6, summary_content = Some ''yo''\<rparr>], None)"
    by (simp add: get_user_conversations_def select_conversations_def submit_def
        fetch_page_def format_convo_def created_at_of_def uuid_time_def index_entry_def)
  from recency_overwrite [OF index_unique_empty first_append h3 second_append]
    index_unique_empty first_append second_append l
  show ?thesis by simp
qed

subsection \<open>Errors at the boundary of the append\<close>
















section \<open>Reading\<close>

lemma annotate_fields [simp]:
  "conversation_id (annotate r) = conversation_id r"
  "message_time (annotate r) = message_time r"
  "message_id (annotate r) = message_id r"
  "content (annotate r) = content r"
  "created_at (annotate r) = Some (uuid_time (message_time r))"
  "id_key (annotate r) = Some (message_id r)"
  by (simp_all add: annotate_def message_row.defs created_at_of_def)

lemma get_conversation_messages_eq:
  "get_conversation_messages c n p s =
     (if fails s then Inr ([], None)
      else Inr (map annotate (fst (fetch_page n p
             (sort_key message_time
                (filter (\<lambda>r. conversation_id r = c) (messages_by_conversation s))))),
           snd (fetch_page n p
             (sort_key message_time
                (filter (\<lambda>r. conversation_id r = c) (messages_by_conversation s))))),
      logged (SelectMessages c) s)"
  by (simp add: get_conversation_messages_def select_messages_eq split: prod.splits)

lemma get_messages_before_timestamp_eq:
  "get_messages_before_timestamp c before_timestamp random_bits n p s =
     (if fails s then Inr ([], None)
      else Inr (map annotate (fst (fetch_page n p
             (sort_key message_time
                (filter (\<lambda>r. conversation_id r = c
                     \<and> message_time r < uuid_from_time before_timestamp random_bits)
                   (messages_by_conversation s))))),
           snd (fetch_page n p
             (sort_key message_time
                (filter (\<lambda>r. conversation_id r = c
                     \<and> message_time r < uuid_from_time before_timestamp random_bits)
                   (messages_by_conversation s))))),
      logged (SelectMessagesBefore c (uuid_from_time before_timestamp random_bits)) s)"
  by (simp add: get_messages_before_timestamp_def select_messages_before_eq Let_def
      split: prod.splits)

text \<open>
  C8. For every conversation, timestamp, draw of \<^verbatim>\<open>uuid_from_time\<close>, page size,
  paging state and store, \<^verbatim>\<open>get_messages_before_timestamp\<close> returns a page, and
  every message of the page belongs to the conversation and has a time key strictly below
  the key derived from the timestamp, in the order of the keys: a message of the same clock
  tick is returned when its remaining bits are smaller, and never one with the derived key
  itself.
\<close>

theorem before_timestamp_strict:
  assumes "get_messages_before_timestamp c before_timestamp random_bits n p s = (r, s')"
  shows "\<exists>page next. r = Inr (page, next)
     \<and> (\<forall>msg \<in> set page. conversation_id msg = c
           \<and> message_time msg < uuid_from_time before_timestamp random_bits
           \<and> message_time msg \<noteq> uuid_from_time before_timestamp random_bits)"
proof (cases "fails s")
  case True
  with assms have "r = Inr ([], None)"
    by (simp add: get_messages_before_timestamp_eq)
  then show ?thesis by simp
next
  case False
  let ?b = "uuid_from_time before_timestamp random_bits"
  let ?rows = "sort_key message_time
     (filter (\<lambda>r. conversation_id r = c \<and> message_time r < ?b) (messages_by_conversation s))"
  have r: "r = Inr (map annotate (fst (fetch_page n p ?rows)), snd (fetch_page n p ?rows))"
    using assms False by (simp add: get_messages_before_timestamp_eq)
  have sub: "set (fst (fetch_page n p ?rows)) \<subseteq> set ?rows" by (rule set_fetch_page)
  have "\<forall>x \<in> set ?rows. conversation_id x = c \<and> message_time x < ?b"
    by simp
  with sub have all:
    "\<forall>x \<in> set (fst (fetch_page n p ?rows)). conversation_id x = c \<and> message_time x < ?b"
    by blast
  have "\<forall>msg \<in> set (map annotate (fst (fetch_page n p ?rows))). conversation_id msg = c
           \<and> message_time msg < ?b \<and> message_time msg \<noteq> ?b"
  proof
    fix msg assume "msg \<in> set (map annotate (fst (fetch_page n p ?rows)))"
    then obtain x where x: "x \<in> set (fst (fetch_page n p ?rows))" and m: "msg = annotate x"
      by auto
    from all x have "conversation_id x = c" and lt: "message_time x < ?b" by blast+
    then show "conversation_id msg = c \<and> message_time msg < ?b \<and> message_time msg \<noteq> ?b"
      using m by (simp add: less_imp_neq)
  qed
  with r show ?thesis by blast
qed

theorem before_timestamp_strict_witness:
  "fst (get_messages_before_timestamp 10 5 3 20 None three_messages) =
     Inr ([annotate (message_entry 10 (5, 1) 20 1 2 ''a'')], None)
   \<and> conversation_id (annotate (message_entry 10 (5, 1) 20 1 2 ''a'')) = 10
   \<and> message_time (annotate (message_entry 10 (5, 1) 20 1 2 ''a'')) < uuid_from_time 5 3
   \<and> message_time (annotate (message_entry 10 (5, 1) 20 1 2 ''a'')) \<noteq> uuid_from_time 5 3"
proof -
  have h: "get_messages_before_timestamp 10 5 3 20 None three_messages =
      (Inr ([annotate (message_entry 10 (5, 1) 20 1 2 ''a'')], None),
       logged (SelectMessagesBefore 10 (5, 3)) three_messages)"
    by (simp add: get_messages_before_timestamp_eq fails_def fetch_page_def
        uuid_from_time_def message_entry_def)
  from before_timestamp_strict [OF h] h show ?thesis
    by simp
qed

text \<open>
  C9. When the call of \<^verbatim>\<open>execute\<close> of a read raises, each of the three read
  operations returns the empty list with no paging state, for every argument; the error
  is not passed on.
\<close>

theorem reads_degrade:
  assumes "fails s"
  shows "fst (get_conversation_messages c n p s) = Inr ([], None)
     \<and> fst (get_messages_before_timestamp c before_timestamp random_bits n p s) = Inr ([], None)
     \<and> fst (get_user_conversations u n p s) = Inr ([], None)"
  using assms
  by (simp add: get_conversation_messages_eq get_messages_before_timestamp_eq
      get_user_conversations_eq)

theorem reads_degrade_witness:
  "fails failing_session
   \<and> fst (get_conversation_messages 10 20 None failing_session) = Inr ([], None)
   \<and> fst (get_messages_before_timestamp 10 5 3 20 None failing_session) = Inr ([], None)
   \<and> fst (get_user_conversations 1 20 None failing_session) = Inr ([], None)"
proof -
  have h: "fails failing_session" by (simp add: fails_def)
  from reads_degrade [OF h] h show ?thesis by simp
qed

end
